theory Spec2Isabelle
  imports Main "HOL-Library.Word"
begin

unbundle bit_operations_syntax

section \<open>Localization (localization.go)\<close>

text \<open>
  \<^verbatim>\<open>type Locale string\<close>: a locale is any string, not only one of the eight constants.
\<close>

type_synonym Locale = string

definition LocaleAustralia :: Locale where "LocaleAustralia = ''en_AU''"
definition LocaleFrance :: Locale where "LocaleFrance = ''fr_FR''"
definition LocaleGermany :: Locale where "LocaleGermany = ''de_DE''"
definition LocaleJapan :: Locale where "LocaleJapan = ''ja_JP''"
definition LocaleNewZealand :: Locale where "LocaleNewZealand = ''en_NZ''"
definition LocaleSpain :: Locale where "LocaleSpain = ''es_ES''"
definition LocaleUnitedKingdom :: Locale where "LocaleUnitedKingdom = ''en_GB''"
definition LocaleUnitedStates :: Locale where "LocaleUnitedStates = ''en_US''"

record Unit =
  Distance :: string
  Elevation :: string
  Height :: string
  Weight :: string
  BodyMeasurements :: string
  Liquids :: string
  BloodGlucose :: string

definition UnitedStatesUnit :: Unit where
  "UnitedStatesUnit = \<lparr> Distance = ''mile'', Elevation = ''ft'', Height = ''in'',
     Weight = ''lb'', BodyMeasurements = ''in'', Liquids = ''fl oz'',
     BloodGlucose = ''mg/dL'' \<rparr>"

definition UnitedKingdomUnit :: Unit where
  "UnitedKingdomUnit = \<lparr> Distance = ''km'', Elevation = ''m'', Height = ''cm'',
     Weight = ''st'', BodyMeasurements = ''cm'', Liquids = ''ml'',
     BloodGlucose = ''mmol/l'' \<rparr>"

definition MetricUnit :: Unit where
  "MetricUnit = \<lparr> Distance = ''km'', Elevation = ''m'', Height = ''cm'',
     Weight = ''kg'', BodyMeasurements = ''cm'', Liquids = ''ml'',
     BloodGlucose = ''mmol/l'' \<rparr>"

text \<open>
  \<^verbatim>\<open>getCorrespondingUnit\<close> returns a \<^verbatim>\<open>*Unit\<close>; the pointer is an option here,
  \<open>None\<close> being \<^verbatim>\<open>nil\<close>. The \<^verbatim>\<open>switch\<close> tries its cases in order.
\<close>

definition getCorrespondingUnit :: "Locale \<Rightarrow> Unit option" where
  "getCorrespondingUnit locale =
     (if locale = LocaleUnitedStates then Some UnitedStatesUnit
      else if locale = LocaleUnitedKingdom then Some UnitedKingdomUnit
      else Some MetricUnit)"

section \<open>Constants (package constants of the client)\<close>

definition CodeChallengeMethod :: string where
  "CodeChallengeMethod = ''S256''"

section \<open>SHA-256 as \<^verbatim>\<open>crypto/sha256\<close> computes it\<close>

text \<open>
  \<^verbatim>\<open>AuthCodeURL\<close> calls \<^verbatim>\<open>sha256.Sum256\<close> of the Go standard library. The embedding
  follows the library's portable implementation: a \<^verbatim>\<open>digest\<close> with eight 32-bit
  registers, a 64-byte buffer \<^verbatim>\<open>x\<close> of which \<^verbatim>\<open>nx\<close> bytes are filled, and a 64-bit byte
  count; \<^verbatim>\<open>Write\<close> runs \<^verbatim>\<open>blockGeneric\<close> over every full chunk and keeps the rest in
  the buffer; \<^verbatim>\<open>checkSum\<close> writes the padding and panics when the buffer is not empty
  afterwards (\<open>None\<close> here).
\<close>

type_synonym byte = "8 word"

text \<open>\<^verbatim>\<open>bits.RotateLeft32(x, k)\<close>: \<^verbatim>\<open>s := uint(k) & 31; return x<<s | x>>(32-s)\<close>.\<close>

definition bits_RotateLeft32 :: "32 word \<Rightarrow> int \<Rightarrow> 32 word" where
  "bits_RotateLeft32 v k = (let s = nat (k mod 32) in push_bit s v OR drop_bit (32 - s) v)"

definition K256 :: "32 word list" where
  "K256 =
     [0x428a2f98, 0x71374491, 0xb5c0fbcf, 0xe9b5dba5, 0x3956c25b, 0x59f111f1, 0x923f82a4, 0xab1c5ed5] @
     [0xd807aa98, 0x12835b01, 0x243185be, 0x550c7dc3, 0x72be5d74, 0x80deb1fe, 0x9bdc06a7, 0xc19bf174] @
     [0xe49b69c1, 0xefbe4786, 0x0fc19dc6, 0x240ca1cc, 0x2de92c6f, 0x4a7484aa, 0x5cb0a9dc, 0x76f988da] @
     [0x983e5152, 0xa831c66d, 0xb00327c8, 0xbf597fc7, 0xc6e00bf3, 0xd5a79147, 0x06ca6351, 0x14292967] @
     [0x27b70a85, 0x2e1b2138, 0x4d2c6dfc, 0x53380d13, 0x650a7354, 0x766a0abb, 0x81c2c92e, 0x92722c85] @
     [0xa2bfe8a1, 0xa81a664b, 0xc24b8b70, 0xc76c51a3, 0xd192e819, 0xd6990624, 0xf40e3585, 0x106aa070] @
     [0x19a4c116, 0x1e376c08, 0x2748774c, 0x34b0bcb5, 0x391c0cb3, 0x4ed8aa4a, 0x5b9cca4f, 0x682e6ff3] @
     [0x748f82ee, 0x78a5636f, 0x84c87814, 0x8cc70208, 0x90befffa, 0xa4506ceb, 0xbef9a3f7, 0xc67178f2]"

text \<open>\<^verbatim>\<open>uint32(p[j])<<24 | uint32(p[j+1])<<16 | uint32(p[j+2])<<8 | uint32(p[j+3])\<close>.\<close>

definition load_word :: "byte list \<Rightarrow> nat \<Rightarrow> 32 word" where
  "load_word p j = (push_bit 24 (ucast (p ! j)) OR push_bit 16 (ucast (p ! (j + 1)))
      OR push_bit 8 (ucast (p ! (j + 2))) OR ucast (p ! (j + 3)))"

text \<open>The body of the loop \<^verbatim>\<open>for i := 16; i < 64; i++\<close> over the array \<^verbatim>\<open>w\<close>.\<close>

definition schedule_step :: "32 word list \<Rightarrow> nat \<Rightarrow> 32 word list" where
  "schedule_step w i =
    (let v1 = w ! (i - 2);
         t1 = bits_RotateLeft32 v1 (-17) XOR bits_RotateLeft32 v1 (-19) XOR drop_bit 10 v1;
         v2 = w ! (i - 15);
         t2 = bits_RotateLeft32 v2 (-7) XOR bits_RotateLeft32 v2 (-18) XOR drop_bit 3 v2
     in w[i := t1 + w ! (i - 7) + t2 + w ! (i - 16)])"

type_synonym regs =
  "32 word \<times> 32 word \<times> 32 word \<times> 32 word \<times> 32 word \<times> 32 word \<times> 32 word \<times> 32 word"

text \<open>The body of the loop \<^verbatim>\<open>for i := 0; i < 64; i++\<close> over \<^verbatim>\<open>a, ..., h\<close>.\<close>

definition round_step :: "32 word list \<Rightarrow> regs \<Rightarrow> nat \<Rightarrow> regs" where
  "round_step w r i = (case r of (a, b, c, d, e, f, g, h) \<Rightarrow>
    (let t1 = h + (bits_RotateLeft32 e (-6) XOR bits_RotateLeft32 e (-11)
                    XOR bits_RotateLeft32 e (-25))
                + ((e AND f) XOR (NOT e AND g)) + K256 ! i + w ! i;
         t2 = (bits_RotateLeft32 a (-2) XOR bits_RotateLeft32 a (-13)
                    XOR bits_RotateLeft32 a (-22))
                + ((a AND b) XOR (a AND c) XOR (b AND c))
     in (t1 + t2, a, b, c, d + t1, e, f, g)))"

text \<open>One pass of the outer loop of \<^verbatim>\<open>blockGeneric\<close>, on the first 64 bytes of \<open>p\<close>.\<close>

definition block_chunk :: "regs \<Rightarrow> byte list \<Rightarrow> regs" where
  "block_chunk hs p =
    (let w0 = foldl (\<lambda>w i. w[i := load_word p (i * 4)]) (replicate 64 0) [0..<16];
         w = foldl schedule_step w0 [16..<64]
     in case hs of (h0, h1, h2, h3, h4, h5, h6, h7) \<Rightarrow>
        (case foldl (round_step w) hs [0..<64] of (a, b, c, d, e, f, g, h) \<Rightarrow>
          (h0 + a, h1 + b, h2 + c, h3 + d, h4 + e, h5 + f, h6 + g, h7 + h)))"

function blockGeneric :: "regs \<Rightarrow> byte list \<Rightarrow> regs" where
  "blockGeneric hs p =
     (if length p \<ge> 64 then blockGeneric (block_chunk hs p) (drop 64 p) else hs)"
  by pat_completeness auto
termination
  by (relation "measure (\<lambda>(hs, p). length p)") auto

declare blockGeneric.simps [simp del]

record digest =
  d_h :: regs
  d_x :: "byte list"
  d_nx :: nat
  d_len :: "64 word"

text \<open>\<^verbatim>\<open>n := copy(dst[off:], src)\<close>: the array after the copy, and the number of bytes copied.\<close>

definition copy_bytes :: "byte list \<Rightarrow> nat \<Rightarrow> byte list \<Rightarrow> byte list \<times> nat" where
  "copy_bytes dst off src = (let n = min (length dst - off) (length src)
     in (take off dst @ take n src @ drop (off + n) dst, n))"

definition digest_Reset :: digest where
  "digest_Reset = \<lparr> d_h = (0x6A09E667, 0xBB67AE85, 0x3C6EF372, 0xA54FF53A,
                            0x510E527F, 0x9B05688C, 0x1F83D9AB, 0x5BE0CD19),
     d_x = replicate 64 0, d_nx = 0, d_len = 0 \<rparr>"

definition digest_Write :: "digest \<Rightarrow> byte list \<Rightarrow> digest" where
  "digest_Write d0 p0 =
    (let d1 = d0\<lparr>d_len := d_len d0 + of_nat (length p0)\<rparr>;
         (d2, p2) = (if d_nx d1 > 0 then
             (let (x', n) = copy_bytes (d_x d1) (d_nx d1) p0;
                  d = d1\<lparr>d_x := x', d_nx := d_nx d1 + n\<rparr>;
                  d = (if d_nx d = 64
                       then d\<lparr>d_h := blockGeneric (d_h d) (d_x d), d_nx := 0\<rparr> else d)
              in (d, drop n p0))
           else (d1, p0));
         (d3, p3) = (if length p2 \<ge> 64 then
             (let n = length p2 - length p2 mod 64
              in (d2\<lparr>d_h := blockGeneric (d_h d2) (take n p2)\<rparr>, drop n p2))
           else (d2, p2))
     in if length p3 > 0
        then (let (x', n) = copy_bytes (d_x d3) 0 p3 in d3\<lparr>d_x := x', d_nx := n\<rparr>)
        else d3)"

definition PutUint64 :: "64 word \<Rightarrow> byte list" where
  "PutUint64 v = map (\<lambda>i. ucast (drop_bit (56 - 8 * i) v)) [0..<8]"

definition PutUint32 :: "32 word \<Rightarrow> byte list" where
  "PutUint32 v = map (\<lambda>i. ucast (drop_bit (24 - 8 * i) v)) [0..<4]"

definition digest_checkSum :: "digest \<Rightarrow> byte list option" where
  "digest_checkSum d0 =
    (let l = d_len d0;
         t = (if l mod 64 < 56 then 56 - l mod 64 else 64 + 56 - l mod 64);
         l' = push_bit 3 l;
         padlen = (0x80 # replicate (unat t - 1) 0) @ PutUint64 l';
         d = digest_Write d0 padlen
     in if d_nx d \<noteq> 0 then None
        else (case d_h d of (h0, h1, h2, h3, h4, h5, h6, h7) \<Rightarrow>
          Some (concat (map PutUint32 [h0, h1, h2, h3, h4, h5, h6, h7]))))"

definition sha256_Sum256 :: "byte list \<Rightarrow> byte list option" where
  "sha256_Sum256 data = digest_checkSum (digest_Write digest_Reset data)"

section \<open>Base64 as \<^verbatim>\<open>encoding/base64\<close> computes it\<close>

text \<open>
  An \<^verbatim>\<open>Encoding\<close> is its 64-character alphabet and its padding character
  (\<open>None\<close> is \<^verbatim>\<open>NoPadding\<close>). \<^verbatim>\<open>Encode\<close> turns every three bytes into four characters
  through a \<^verbatim>\<open>uint\<close>, and then the one or two bytes that remain.
\<close>

record Encoding =
  encode :: string
  padChar :: "char option"

definition encodeURL :: string where
  "encodeURL = ''ABCDEFGHIJKLMNOPQRSTUVWXYZabcdefghijklmnopqrstuvwxyz0123456789-_''"

definition URLEncoding :: Encoding where
  "URLEncoding = \<lparr> encode = encodeURL, padChar = Some CHR ''='' \<rparr>"

definition RawURLEncoding :: Encoding where
  "RawURLEncoding = URLEncoding\<lparr> padChar := None \<rparr>"

definition enc6 :: "Encoding \<Rightarrow> 64 word \<Rightarrow> nat \<Rightarrow> char" where
  "enc6 enc val s = encode enc ! unat (drop_bit s val AND 0x3F)"

fun Encode :: "Encoding \<Rightarrow> byte list \<Rightarrow> string" where
  "Encode enc (b0 # b1 # b2 # src) =
     (let val = push_bit 16 (ucast b0) OR push_bit 8 (ucast b1) OR ucast b2
      in [enc6 enc val 18, enc6 enc val 12, enc6 enc val 6, enc6 enc val 0] @ Encode enc src)"
| "Encode enc [b0, b1] =
     (let val = push_bit 16 (ucast b0) OR push_bit 8 (ucast b1)
      in [enc6 enc val 18, enc6 enc val 12, enc6 enc val 6]
         @ (case padChar enc of None \<Rightarrow> [] | Some c \<Rightarrow> [c]))"
| "Encode enc [b0] =
     (let val = push_bit 16 (ucast b0)
      in [enc6 enc val 18, enc6 enc val 12]
         @ (case padChar enc of None \<Rightarrow> [] | Some c \<Rightarrow> [c, c]))"
| "Encode enc [] = []"

definition EncodeToString :: "Encoding \<Rightarrow> byte list \<Rightarrow> string" where
  "EncodeToString enc src = Encode enc src"

text \<open>
  The code challenge of \<^verbatim>\<open>AuthCodeURL\<close>:
  \<^verbatim>\<open>base64.RawURLEncoding.EncodeToString(sha256.Sum256(codeVerifier)[:])\<close>.
\<close>

definition codeChallenge :: "byte list \<Rightarrow> string option" where
  "codeChallenge codeVerifier =
     (case sha256_Sum256 codeVerifier of None \<Rightarrow> None
      | Some hashedCodeVerifier \<Rightarrow> Some (EncodeToString RawURLEncoding hashedCodeVerifier))"

section \<open>Tokens, errors and the OAuth 2.0 library\<close>

text \<open>
  \<^verbatim>\<open>time.Time\<close> is an abstract instant. A Go pointer is an option, \<open>None\<close> being
  \<^verbatim>\<open>nil\<close>; a pair of results \<^verbatim>\<open>(value, error)\<close> is a pair of options.
\<close>

type_synonym Time = int

record Token =
  AccessToken :: string
  TokenType :: string
  RefreshToken :: string
  Expiry :: Time

text \<open>
  A dynamically typed value (\<^verbatim>\<open>interface{}\<close>) as \<^verbatim>\<open>oauth2.Token.Extra\<close> returns it:
  a string, or a value of another dynamic type. The \<^verbatim>\<open>nil\<close> interface is \<open>None\<close>.
\<close>

datatype go_value = GoString string | GoInt64 int | GoBool bool | GoOther

text \<open>
  \<^verbatim>\<open>oauth2.Token\<close>: the four fields the client reads, and the decoded token response
  \<^verbatim>\<open>raw\<close> that \<^verbatim>\<open>Extra(key)\<close> looks the key up in.
\<close>

record oauth2_Token =
  o2_AccessToken :: string
  o2_TokenType :: string
  o2_RefreshToken :: string
  o2_Expiry :: Time
  o2_raw :: "string \<rightharpoonup> go_value"

definition Extra :: "oauth2_Token \<Rightarrow> string \<Rightarrow> go_value option" where
  "Extra t key = o2_raw t key"

definition asOAuth2Token :: "Token option \<Rightarrow> oauth2_Token option" where
  "asOAuth2Token t =
     (case t of None \<Rightarrow> None
      | Some t' \<Rightarrow> Some \<lparr> o2_AccessToken = AccessToken t', o2_TokenType = TokenType t',
            o2_RefreshToken = RefreshToken t', o2_Expiry = Expiry t', o2_raw = Map.empty \<rparr>)"

record http_Response =
  StatusCode :: int

text \<open>
  Errors: \<^verbatim>\<open>*oauth2.RetrieveError\<close> with its response and body; the structured provider
  error that the client's \<^verbatim>\<open>parseError\<close> builds (its declaration is not part of the
  sources at hand: an error code and a description, as the specification has it); any
  other error by its message; and \<^verbatim>\<open>fmt.Errorf(msg + ": %w", err)\<close>, which wraps.
\<close>

datatype error =
    RetrieveError http_Response string
  | ProviderError string string
  | ErrorString string
  | Wrapped string error

text \<open>
  \<^verbatim>\<open>errors.As(err, &rErr)\<close> for a target of type \<^verbatim>\<open>*oauth2.RetrieveError\<close>: the first
  error of that type along the chain of wrapped errors.
\<close>

fun errors_As_RetrieveError :: "error \<Rightarrow> (http_Response \<times> string) option" where
  "errors_As_RetrieveError (RetrieveError resp body) = Some (resp, body)"
| "errors_As_RetrieveError (Wrapped msg err) = errors_As_RetrieveError err"
| "errors_As_RetrieveError (ProviderError c d) = None"
| "errors_As_RetrieveError (ErrorString s) = None"

text \<open>\<^verbatim>\<open>url.Values\<close> is a map from keys to lists of values; \<^verbatim>\<open>Set\<close> replaces.\<close>

type_synonym Values = "string \<rightharpoonup> string list"

definition Values_Set :: "Values \<Rightarrow> string \<Rightarrow> string \<Rightarrow> Values" where
  "Values_Set v key val = v(key \<mapsto> [val])"

datatype AuthCodeOption = SetAuthURLParam string string

fun setValue :: "Values \<Rightarrow> AuthCodeOption \<Rightarrow> Values" where
  "setValue v (SetAuthURLParam key val) = Values_Set v key val"

definition ApprovalForce :: AuthCodeOption where
  "ApprovalForce = SetAuthURLParam ''prompt'' ''consent''"

record oauth2_Config =
  ClientID :: string
  ClientSecret :: string
  AuthURL :: string
  TokenURL :: string
  RedirectURL :: string
  Scopes :: "string list"

text \<open>\<^verbatim>\<open>strings.Join(elems, sep)\<close>.\<close>

fun strings_Join :: "string list \<Rightarrow> string \<Rightarrow> string" where
  "strings_Join [] sep = []"
| "strings_Join [e] sep = e"
| "strings_Join (e # es) sep = e @ sep @ strings_Join es sep"

text \<open>
  \<^verbatim>\<open>strings.Split(s, sep)\<close> for a separator of one byte: the pieces between the
  separators, empty pieces included; the empty string gives one empty piece.
\<close>

fun strings_Split :: "string \<Rightarrow> char \<Rightarrow> string list" where
  "strings_Split [] sep = [[]]"
| "strings_Split (c # cs) sep =
     (if c = sep then [] # strings_Split cs sep
      else (case strings_Split cs sep of
              [] \<Rightarrow> [[c]]
            | piece # pieces \<Rightarrow> (c # piece) # pieces))"

text \<open>
  A URL is kept as the endpoint it starts with and the query values written after it:
  what \<^verbatim>\<open>v.Encode()\<close> writes and \<^verbatim>\<open>url.Parse\<close> reads back. Percent-encoding is not
  modelled.
\<close>

record URL =
  url_Endpoint :: string
  url_Query :: Values

text \<open>
  \<^verbatim>\<open>(*oauth2.Config).AuthCodeURL(state, opts...)\<close> of \<^verbatim>\<open>golang.org/x/oauth2\<close>:
  \<^verbatim>\<open>response_type\<close> and \<^verbatim>\<open>client_id\<close> always, \<^verbatim>\<open>redirect_uri\<close>, \<^verbatim>\<open>scope\<close> and
  \<^verbatim>\<open>state\<close> when not empty, then the options in order.
\<close>

definition oauth2_AuthCodeURL :: "oauth2_Config \<Rightarrow> string \<Rightarrow> AuthCodeOption list \<Rightarrow> URL" where
  "oauth2_AuthCodeURL c state opts =
    (let v = [''response_type'' \<mapsto> [''code''], ''client_id'' \<mapsto> [ClientID c]];
         v = (if RedirectURL c \<noteq> [] then Values_Set v ''redirect_uri'' (RedirectURL c) else v);
         v = (if length (Scopes c) > 0
              then Values_Set v ''scope'' (strings_Join (Scopes c) '' '') else v);
         v = (if state \<noteq> [] then Values_Set v ''state'' state else v);
         v = foldl setValue v opts
     in \<lparr> url_Endpoint = AuthURL c, url_Query = v \<rparr>)"

text \<open>
  The package variables \<^verbatim>\<open>CSRFStateLength\<close> and \<^verbatim>\<open>CodeVerifierLength\<close> can be assigned
  to; both start at 128.
\<close>

record package_vars =
  CSRFStateLength :: "64 word"
  CodeVerifierLength :: "64 word"

definition default_package_vars :: package_vars where
  "default_package_vars = \<lparr> CSRFStateLength = 128, CodeVerifierLength = 128 \<rparr>"

section \<open>The client\<close>

text \<open>
  Modelled from the spec: the declaration of \<^verbatim>\<open>ApplicationType\<close> is not part of the
  sources at hand. The client compares it with \<^verbatim>\<open>ServerApplication\<close> only; the
  specification knows the server-side confidential type and the public one.
\<close>

datatype ApplicationType = ServerApplication | PublicApplication

text \<open>
  Modelled from the spec: \<^verbatim>\<open>Scope\<close> and \<^verbatim>\<open>newScope\<close> are not part of the sources at
  hand. The specification has a scope as the set of granted permission names, of which only
  membership is asked.
\<close>

type_synonym Scope = "string set"

definition newScope :: "string list \<Rightarrow> Scope option" where
  "newScope names = Some (set names)"

text \<open>
  The outside world \<open>'w\<close> (the network, the random source, the caller's storage) is
  threaded through every call that touches it. The update hook of a client receives the
  old and the new token.
\<close>

record 'w Client =
  oauth2Config :: oauth2_Config
  applicationType :: ApplicationType
  debugMode :: bool
  updateTokenFunc :: "(Token option \<Rightarrow> Token option \<Rightarrow> 'w \<Rightarrow> error option \<times> 'w) option"

text \<open>
  The functions of the client that the sources at hand call but do not contain are
  parameters: \<^verbatim>\<open>randomBytes\<close> (\<open>None\<close> when it ends the process),
  \<^verbatim>\<open>retrieveToken\<close> and \<^verbatim>\<open>parseError\<close>; so is the transport of the library, which
  \<^verbatim>\<open>Exchange\<close> hands the configuration and the request values to.
\<close>

record 'w env =
  randomBytes :: "64 word \<Rightarrow> 'w \<Rightarrow> byte list option \<times> 'w"
  retrieveToken :: "string \<Rightarrow> string \<Rightarrow> string \<Rightarrow> Values \<Rightarrow> ApplicationType \<Rightarrow> 'w
                      \<Rightarrow> (Token option \<times> error option) \<times> 'w"
  parseError :: "http_Response \<Rightarrow> string \<Rightarrow> error option"
  oauth2_retrieveToken :: "oauth2_Config \<Rightarrow> Values \<Rightarrow> 'w \<Rightarrow> (error + oauth2_Token) \<times> 'w"

text \<open>What a call did to the outside, in order.\<close>

datatype event =
    RetrieveTokenCall string string string Values ApplicationType
  | UpdateTokenCall "Token option" "Token option"
  | ExchangeCall oauth2_Config Values
  | RandomBytesCall "64 word"

text \<open>A call returns its results, or the program stops in it (a panic, a fatal exit).\<close>

datatype 'a outcome = Aborted | Returned 'a

record 'w tokenRefresher =
  client :: "'w Client"
  lastToken :: "Token option"

text \<open>
  \<^verbatim>\<open>(*tokenRefresher).Token\<close>. The argument \<^verbatim>\<open>tkr.lastToken.RefreshToken\<close> panics on
  a \<^verbatim>\<open>nil\<close> token before anything is sent. The result holds the returned pair, the
  refresher afterwards, the world afterwards and the events.
\<close>

definition tokenRefresher_Token ::
  "'w env \<Rightarrow> 'w tokenRefresher \<Rightarrow> 'w
    \<Rightarrow> (oauth2_Token option \<times> error option) outcome \<times> 'w tokenRefresher \<times> 'w \<times> event list" where
  "tokenRefresher_Token env tkr w =
    (case lastToken tkr of
       None \<Rightarrow> (Aborted, tkr, w, [])
     | Some lt \<Rightarrow>
        (let cfg = oauth2Config (client tkr);
             v = [''grant_type'' \<mapsto> [''refresh_token''],
                  ''refresh_token'' \<mapsto> [RefreshToken lt]];
             ((token, err), w1) = retrieveToken env (ClientID cfg) (ClientSecret cfg)
                 (TokenURL cfg) v (applicationType (client tkr)) w;
             ev1 = [RetrieveTokenCall (ClientID cfg) (ClientSecret cfg) (TokenURL cfg) v
                      (applicationType (client tkr))]
         in case err of
              Some e \<Rightarrow> (Returned (None, Some e), tkr, w1, ev1)
            | None \<Rightarrow>
               (case updateTokenFunc (client tkr) of
                  None \<Rightarrow>
                    (Returned (asOAuth2Token token, None), tkr\<lparr>lastToken := token\<rparr>, w1, ev1)
                | Some f \<Rightarrow>
                   (let (herr, w2) = f (lastToken tkr) token w1;
                        ev2 = ev1 @ [UpdateTokenCall (lastToken tkr) token]
                    in case herr of
                         Some e \<Rightarrow> (Returned (None, Some e), tkr, w2, ev2)
                       | None \<Rightarrow> (Returned (asOAuth2Token token, None),
                                    tkr\<lparr>lastToken := token\<rparr>, w2, ev2)))))"

record LinkResponse =
  UserID :: string
  Scope :: "Scope option"
  Token :: "Token option"

text \<open>
  \<^verbatim>\<open>(*Client).AuthCodeURL\<close>. The result holds the URL, the state and the code verifier
  as strings, the world afterwards and the events.
\<close>

definition string_of_bytes :: "byte list \<Rightarrow> string" where
  "string_of_bytes bs = map (\<lambda>b. char_of (unat b)) bs"

definition AuthCodeURL ::
  "'w env \<Rightarrow> package_vars \<Rightarrow> 'w Client \<Rightarrow> string \<Rightarrow> 'w
    \<Rightarrow> (URL \<times> string \<times> string) outcome \<times> 'w \<times> event list" where
  "AuthCodeURL env vars c redirectURI w =
    (case randomBytes env (CSRFStateLength vars) w of
       (None, w1) \<Rightarrow> (Aborted, w1, [RandomBytesCall (CSRFStateLength vars)])
     | (Some stateBytes, w1) \<Rightarrow>
        (let ev = [RandomBytesCall (CSRFStateLength vars),
                   RandomBytesCall (CodeVerifierLength vars)]
         in case randomBytes env (CodeVerifierLength vars) w1 of
              (None, w2) \<Rightarrow> (Aborted, w2, ev)
            | (Some codeVerifier, w2) \<Rightarrow>
               (case codeChallenge codeVerifier of
                  None \<Rightarrow> (Aborted, w2, ev)
                | Some challenge \<Rightarrow>
                   (let state = string_of_bytes stateBytes;
                        opts = [SetAuthURLParam ''code_challenge'' challenge,
                                SetAuthURLParam ''code_challenge_method'' CodeChallengeMethod,
                                SetAuthURLParam ''redirect_uri'' redirectURI];
                        opts = (if debugMode c then opts @ [ApprovalForce] else opts);
                        authCodeURL = oauth2_AuthCodeURL (oauth2Config c) state opts
                    in (Returned (authCodeURL, state, string_of_bytes codeVerifier), w2, ev)))))"

text \<open>
  \<^verbatim>\<open>(*oauth2.Config).Exchange(ctx, code, opts...)\<close> of \<^verbatim>\<open>golang.org/x/oauth2\<close>: the
  grant type and the code, the configured redirect URL when there is one, then the
  options in order; the values go to the transport.
\<close>

definition Exchange_values :: "oauth2_Config \<Rightarrow> string \<Rightarrow> AuthCodeOption list \<Rightarrow> Values" where
  "Exchange_values c code opts =
    (let v = [''grant_type'' \<mapsto> [''authorization_code''], ''code'' \<mapsto> [code]];
         v = (if RedirectURL c \<noteq> [] then Values_Set v ''redirect_uri'' (RedirectURL c) else v)
     in foldl setValue v opts)"

definition oauth2_Exchange ::
  "'w env \<Rightarrow> oauth2_Config \<Rightarrow> string \<Rightarrow> AuthCodeOption list \<Rightarrow> 'w
     \<Rightarrow> (error + oauth2_Token) \<times> 'w" where
  "oauth2_Exchange env c code opts w = oauth2_retrieveToken env c (Exchange_values c code opts) w"

definition Link_opts :: "'w Client \<Rightarrow> string \<Rightarrow> string \<Rightarrow> AuthCodeOption list" where
  "Link_opts c codeVerifier reqURIString =
    (let opts = [SetAuthURLParam ''code_verifier'' codeVerifier,
                 SetAuthURLParam ''redirect_uri'' reqURIString]
     in if applicationType c = ServerApplication
        then opts @ [SetAuthURLParam ''client_id'' (ClientID (oauth2Config c))] else opts)"

text \<open>
  \<^verbatim>\<open>(*Client).Link\<close>. The type assertions \<^verbatim>\<open>token.Extra("user_id").(string)\<close> and
  \<^verbatim>\<open>token.Extra("scope").(string)\<close> have no \<^verbatim>\<open>ok\<close> result: they panic on anything
  but a string. The fields of the composite literal are evaluated in order.
\<close>

definition Link ::
  "'w env \<Rightarrow> 'w Client \<Rightarrow> string \<Rightarrow> string \<Rightarrow> string \<Rightarrow> 'w
    \<Rightarrow> (LinkResponse option \<times> error option) outcome \<times> 'w \<times> event list" where
  "Link env c code codeVerifier reqURIString w =
    (let opts = Link_opts c codeVerifier reqURIString;
         (res, w1) = oauth2_Exchange env (oauth2Config c) code opts w;
         ev = [ExchangeCall (oauth2Config c) (Exchange_values (oauth2Config c) code opts)]
     in case res of
          Inl err \<Rightarrow>
            (case errors_As_RetrieveError err of
               Some (resp, body) \<Rightarrow>
                 (case parseError env resp body of
                    Some e \<Rightarrow>
                      (Returned (None, Some (Wrapped ''fitbit(oauth2): cannot fetch token'' e)),
                       w1, ev)
                  | None \<Rightarrow>
                      (Returned (None, Some (Wrapped ''fitbit(oauth2): cannot fetch token'' err)),
                       w1, ev))
             | None \<Rightarrow>
                 (Returned (None, Some (Wrapped ''fitbit(oauth2): cannot fetch token'' err)),
                  w1, ev))
        | Inr token \<Rightarrow>
            (case Extra token ''user_id'' of
               Some (GoString userID) \<Rightarrow>
                 (case Extra token ''scope'' of
                    Some (GoString scope) \<Rightarrow>
                      (Returned (Some \<lparr> UserID = userID,
                                        Scope = newScope (strings_Split scope CHR '' ''),
                                        Token = Some \<lparr> AccessToken = o2_AccessToken token,
                                                       TokenType = o2_TokenType token,
                                                       RefreshToken = o2_RefreshToken token,
                                                       Expiry = o2_Expiry token \<rparr> \<rparr>,
                                 None), w1, ev)
                  | _ \<Rightarrow> (Aborted, w1, ev))
             | _ \<Rightarrow> (Aborted, w1, ev)))"


section \<open>A stub client and a stub provider\<close>

definition ex_config :: oauth2_Config where
  "ex_config = \<lparr> ClientID = ''22ABCD'', ClientSecret = ''s3cr3t'',
     AuthURL = ''https://www.fitbit.com/oauth2/authorize'',
     TokenURL = ''https://api.fitbit.com/oauth2/token'',
     RedirectURL = [], Scopes = [''activity'', ''heartrate''] \<rparr>"

definition ex_old_token :: Token where
  "ex_old_token = \<lparr> AccessToken = ''AT0'', TokenType = ''Bearer'', RefreshToken = ''RT0'',
     Expiry = 1000 \<rparr>"

definition ex_new_token :: Token where
  "ex_new_token = \<lparr> AccessToken = ''AT1'', TokenType = ''Bearer'', RefreshToken = ''RT1'',
     Expiry = 4600 \<rparr>"

definition ex_response :: oauth2_Token where
  "ex_response = \<lparr> o2_AccessToken = ''AT1'', o2_TokenType = ''Bearer'',
     o2_RefreshToken = ''RT1'', o2_Expiry = 3600,
     o2_raw = [''user_id'' \<mapsto> GoString ''U1'', ''scope'' \<mapsto> GoString ''activity heartrate''] \<rparr>"

definition ex_bad_request :: error where
  "ex_bad_request = RetrieveError \<lparr> StatusCode = 400 \<rparr> ''invalid_grant''"

text \<open>
  A stub of the outside: the world counts the calls; the token endpoint accepts the refresh
  token \<open>RT0\<close> and the code \<open>abc123\<close>, answers a code \<open>nouser\<close> without a user id, and
  answers anything else with status 400; the random source gives the byte 65.
\<close>

definition ex_env :: "nat env" where
  "ex_env = \<lparr>
     randomBytes = (\<lambda>n w. (Some (replicate (unat n) 65), Suc w)),
     retrieveToken = (\<lambda>cid cs turl v app w.
        if v ''refresh_token'' = Some [''RT0''] then ((Some ex_new_token, None), Suc w)
        else ((None, Some ex_bad_request), Suc w)),
     parseError = (\<lambda>resp body.
        if StatusCode resp = 400 then Some (ProviderError body ''Bad Request'') else None),
     oauth2_retrieveToken = (\<lambda>c v w.
        if v ''code'' = Some [''abc123''] then (Inr ex_response, Suc w)
        else if v ''code'' = Some [''nouser'']
          then (Inr (ex_response\<lparr> o2_raw := [''scope'' \<mapsto> GoString ''activity''] \<rparr>), Suc w)
        else if v ''code'' = Some [''offline'']
          then (Inl (ErrorString ''dial tcp: no route to host''), Suc w)
        else (Inl ex_bad_request, Suc w)) \<rparr>"

definition ex_client :: "nat Client" where
  "ex_client = \<lparr> oauth2Config = ex_config, applicationType = ServerApplication,
     debugMode = True, updateTokenFunc = None \<rparr>"

definition ex_failing_hook :: "Token option \<Rightarrow> Token option \<Rightarrow> nat \<Rightarrow> error option \<times> nat" where
  "ex_failing_hook old new w = (Some (ErrorString ''cannot store the token''), w)"

definition ex_refresher :: "nat tokenRefresher" where
  "ex_refresher = \<lparr> client = ex_client\<lparr> updateTokenFunc := Some ex_failing_hook \<rparr>,
     lastToken = Some ex_old_token \<rparr>"

section \<open>Splitting on single spaces, as the specification reads it\<close>

text \<open>
  A list of pieces is the split of \<open>S\<close> on single spaces when no piece holds a space and
  the pieces, each followed by one space, spell \<open>S\<close> followed by one space. So two spaces
  in a row enclose an empty piece, and the empty string has the one empty piece. The
  definition uses nothing of the code.
\<close>

definition split_on_spaces :: "string \<Rightarrow> string list \<Rightarrow> bool" where
  "split_on_spaces S pieces =
     (CHR '' '' \<notin> set (concat pieces) \<and> concat (map (\<lambda>p. p @ '' '') pieces) = S @ '' '')"

section \<open>Properties of the localization table\<close>

lemma units_distinct:
  "UnitedStatesUnit \<noteq> UnitedKingdomUnit" "UnitedStatesUnit \<noteq> MetricUnit"
  "UnitedKingdomUnit \<noteq> MetricUnit"
  by (simp_all add: UnitedStatesUnit_def UnitedKingdomUnit_def MetricUnit_def)

text \<open>
  Claim C10. For every locale, \<open>getCorrespondingUnit\<close> returns a non-nil unit; the unit is
  \<open>UnitedStatesUnit\<close> exactly when the locale is \<open>en_US\<close>, \<open>UnitedKingdomUnit\<close> exactly
  when the locale is \<open>en_GB\<close>, and \<open>MetricUnit\<close> for every other locale, whether or not
  it is one of the eight constants.
\<close>

theorem getCorrespondingUnit_cases:
  "getCorrespondingUnit l \<noteq> None
   \<and> (getCorrespondingUnit l = Some UnitedStatesUnit) = (l = ''en_US'')
   \<and> (getCorrespondingUnit l = Some UnitedKingdomUnit) = (l = ''en_GB'')
   \<and> (getCorrespondingUnit l = Some MetricUnit) = (l \<noteq> ''en_US'' \<and> l \<noteq> ''en_GB'')"
  using units_distinct
  by (simp add: getCorrespondingUnit_def LocaleUnitedStates_def LocaleUnitedKingdom_def)

section \<open>The token refresher\<close>

text \<open>
  Claim C1. When the token endpoint answers a refresh with a token and the update hook,
  called with the old and the new token, returns an error, \<open>Token\<close> returns that error
  and no token, and the refresher is as it was: its \<open>lastToken\<close> is still the token from
  before the refresh. The next call of \<open>Token\<close> on it, in whatever world, starts with a
  request that carries the refresh token from before the refresh.
\<close>

theorem Token_hook_failure:
  assumes lt: "lastToken tkr = Some lt"
    and cfg: "cfg = oauth2Config (client tkr)"
    and v: "v = [''grant_type'' \<mapsto> [''refresh_token''], ''refresh_token'' \<mapsto> [RefreshToken lt]]"
    and req: "retrieveToken env (ClientID cfg) (ClientSecret cfg) (TokenURL cfg) v
               (applicationType (client tkr)) w = ((token, None), w1)"
    and hook: "updateTokenFunc (client tkr) = Some f"
    and fails: "f (Some lt) token w1 = (Some e, w2)"
  shows "case tokenRefresher_Token env tkr w of (r, tkr', w', evs) \<Rightarrow>
           r = Returned (None, Some e) \<and> tkr' = tkr \<and> lastToken tkr' = Some lt \<and> w' = w2
           \<and> (\<forall>w''. case tokenRefresher_Token env tkr' w'' of (r'', tkr'', w''', evs'') \<Rightarrow>
                 take 1 evs'' = [RetrieveTokenCall (ClientID cfg) (ClientSecret cfg)
                                   (TokenURL cfg) v (applicationType (client tkr))])"
  using assms
  by (simp add: tokenRefresher_Token_def Let_def split: prod.splits option.splits)

theorem Token_hook_failure_witness:
  "case tokenRefresher_Token ex_env ex_refresher 0 of (r, tkr', w', evs) \<Rightarrow>
           r = Returned (None, Some (ErrorString ''cannot store the token''))
           \<and> tkr' = ex_refresher \<and> lastToken tkr' = Some ex_old_token \<and> w' = 1
           \<and> (\<forall>w''. case tokenRefresher_Token ex_env tkr' w'' of (r'', tkr'', w''', evs'') \<Rightarrow>
                 take 1 evs'' = [RetrieveTokenCall ''22ABCD'' ''s3cr3t''
                                   ''https://api.fitbit.com/oauth2/token''
                                   [''grant_type'' \<mapsto> [''refresh_token''], ''refresh_token'' \<mapsto> [''RT0'']]
                                   ServerApplication])"
  using Token_hook_failure [of ex_refresher ex_old_token ex_config _ ex_env 0 "Some ex_new_token" 1
      ex_failing_hook "ErrorString ''cannot store the token''" 1]
  by (simp add: ex_refresher_def ex_client_def ex_config_def ex_env_def ex_old_token_def
      ex_failing_hook_def)




section \<open>The code exchange\<close>

text \<open>
  Claim C2. When the exchange fails: if the error is or wraps an \<^verbatim>\<open>oauth2.RetrieveError\<close>
  whose response and body \<open>parseError\<close> turns into an error, \<open>Link\<close> returns that parsed
  error wrapped with \<open>fitbit(oauth2): cannot fetch token\<close>; in every other case it
  returns the error of the exchange wrapped with the same text; in both cases the
  \<open>LinkResponse\<close> is \<^verbatim>\<open>nil\<close>.
\<close>

theorem Link_failure:
  assumes ex: "oauth2_Exchange env (oauth2Config c) code (Link_opts c codeVerifier reqURIString) w
                = (Inl err, w1)"
  shows "(\<forall>resp body e. errors_As_RetrieveError err = Some (resp, body)
              \<and> parseError env resp body = Some e
            \<longrightarrow> fst (Link env c code codeVerifier reqURIString w)
                 = Returned (None, Some (Wrapped ''fitbit(oauth2): cannot fetch token'' e)))
       \<and> (errors_As_RetrieveError err = None
            \<or> (\<exists>resp body. errors_As_RetrieveError err = Some (resp, body)
                  \<and> parseError env resp body = None)
            \<longrightarrow> fst (Link env c code codeVerifier reqURIString w)
                 = Returned (None, Some (Wrapped ''fitbit(oauth2): cannot fetch token'' err)))
       \<and> (\<exists>e. fst (Link env c code codeVerifier reqURIString w)
                 = Returned (None, Some (Wrapped ''fitbit(oauth2): cannot fetch token'' e)))"
  using assms
  by (auto simp add: Link_def Let_def split: prod.splits option.splits)

theorem Link_failure_witness:
  "fst (Link ex_env ex_client ''expired'' ''Vxyz'' ''https://app/callback'' 0)
     = Returned (None, Some (Wrapped ''fitbit(oauth2): cannot fetch token''
                               (ProviderError ''invalid_grant'' ''Bad Request'')))
   \<and> fst (Link ex_env ex_client ''offline'' ''Vxyz'' ''https://app/callback'' 0)
     = Returned (None, Some (Wrapped ''fitbit(oauth2): cannot fetch token''
                               (ErrorString ''dial tcp: no route to host'')))"
proof -
  have a: "oauth2_Exchange ex_env (oauth2Config ex_client) ''expired''
             (Link_opts ex_client ''Vxyz'' ''https://app/callback'') 0 = (Inl ex_bad_request, 1)"
    by (simp add: oauth2_Exchange_def ex_env_def Exchange_values_def Link_opts_def ex_client_def
        ex_config_def Values_Set_def)
  have b: "oauth2_Exchange ex_env (oauth2Config ex_client) ''offline''
             (Link_opts ex_client ''Vxyz'' ''https://app/callback'') 0
             = (Inl (ErrorString ''dial tcp: no route to host''), 1)"
    by (simp add: oauth2_Exchange_def ex_env_def Exchange_values_def Link_opts_def ex_client_def
        ex_config_def Values_Set_def)
  have pa: "errors_As_RetrieveError ex_bad_request = Some (\<lparr> StatusCode = 400 \<rparr>, ''invalid_grant'')
            \<and> parseError ex_env \<lparr> StatusCode = 400 \<rparr> ''invalid_grant''
                = Some (ProviderError ''invalid_grant'' ''Bad Request'')"
    by (simp add: ex_bad_request_def ex_env_def)
  have pb: "errors_As_RetrieveError (ErrorString ''dial tcp: no route to host'') = None"
    by simp
  from Link_failure [OF a] pa Link_failure [OF b] pb show ?thesis
    by blast
qed

lemma Exchange_values_unfold:
  "Exchange_values cfg code (Link_opts c codeVerifier reqURIString) =
     (if applicationType c = ServerApplication
      then ([''grant_type'' \<mapsto> [''authorization_code''], ''code'' \<mapsto> [code],
             ''code_verifier'' \<mapsto> [codeVerifier], ''redirect_uri'' \<mapsto> [reqURIString],
             ''client_id'' \<mapsto> [ClientID (oauth2Config c)]])
      else ([''grant_type'' \<mapsto> [''authorization_code''], ''code'' \<mapsto> [code],
             ''code_verifier'' \<mapsto> [codeVerifier], ''redirect_uri'' \<mapsto> [reqURIString]]))"
  by (cases "RedirectURL cfg = []")
     (simp_all add: Exchange_values_def Link_opts_def Values_Set_def fun_upd_twist)

lemma Exchange_values_Link_opts:
  fixes cfg code c codeVerifier reqURIString
  defines "v \<equiv> Exchange_values cfg code (Link_opts c codeVerifier reqURIString)"
  shows "v ''grant_type'' = Some [''authorization_code'']"
    and "v ''code'' = Some [code]"
    and "v ''code_verifier'' = Some [codeVerifier]"
    and "v ''redirect_uri'' = Some [reqURIString]"
    and "v ''client_id'' = (if applicationType c = ServerApplication
                          then Some [ClientID (oauth2Config c)] else None)"
    and "dom v = {''grant_type'', ''code'', ''code_verifier'', ''redirect_uri''}
               \<union> (if applicationType c = ServerApplication then {''client_id''} else {})"
  unfolding v_def Exchange_values_unfold
  by (simp_all add: insert_commute)

lemma Link_events:
  "\<exists>r. Link env c code codeVerifier reqURIString w =
     (r, snd (oauth2_retrieveToken env (oauth2Config c)
                (Exchange_values (oauth2Config c) code (Link_opts c codeVerifier reqURIString)) w),
      [ExchangeCall (oauth2Config c)
                (Exchange_values (oauth2Config c) code (Link_opts c codeVerifier reqURIString))])"
proof -
  obtain res w1 where ex: "oauth2_retrieveToken env (oauth2Config c)
      (Exchange_values (oauth2Config c) code (Link_opts c codeVerifier reqURIString)) w = (res, w1)"
    by (cases "oauth2_retrieveToken env (oauth2Config c)
      (Exchange_values (oauth2Config c) code (Link_opts c codeVerifier reqURIString)) w") blast
  show ?thesis
  proof (cases res)
    case (Inl err)
    with ex show ?thesis
      by (simp add: Link_def Let_def oauth2_Exchange_def split: option.splits)
  next
    case (Inr token)
    with ex show ?thesis
      by (simp add: Link_def Let_def oauth2_Exchange_def split: option.splits go_value.splits)
  qed
qed

text \<open>
  Claim C5. Every call of \<open>Link\<close> makes one exchange, and the values it hands to the
  transport of the library are \<open>grant_type = authorization_code\<close>, \<open>code\<close>,
  \<open>code_verifier\<close> = the \<open>codeVerifier\<close> argument and \<open>redirect_uri\<close> = the
  \<open>reqURIString\<close> argument; \<open>client_id\<close> is among them if and only if the client is a
  \<open>ServerApplication\<close>, and there is no other key.
\<close>

theorem Link_request:
  "case Link env c code codeVerifier reqURIString w of (r, w', evs) \<Rightarrow>
     (\<exists>v. evs = [ExchangeCall (oauth2Config c) v]
        \<and> w' = snd (oauth2_retrieveToken env (oauth2Config c) v w)
        \<and> v ''grant_type'' = Some [''authorization_code'']
        \<and> v ''code'' = Some [code]
        \<and> v ''code_verifier'' = Some [codeVerifier]
        \<and> v ''redirect_uri'' = Some [reqURIString]
        \<and> v ''client_id'' = (if applicationType c = ServerApplication
                               then Some [ClientID (oauth2Config c)] else None)
        \<and> dom v = {''grant_type'', ''code'', ''code_verifier'', ''redirect_uri''}
                    \<union> (if applicationType c = ServerApplication then {''client_id''} else {}))"
proof -
  obtain r where l: "Link env c code codeVerifier reqURIString w =
     (r, snd (oauth2_retrieveToken env (oauth2Config c)
                (Exchange_values (oauth2Config c) code (Link_opts c codeVerifier reqURIString)) w),
      [ExchangeCall (oauth2Config c)
                (Exchange_values (oauth2Config c) code (Link_opts c codeVerifier reqURIString))])"
    using Link_events [of env c code codeVerifier reqURIString w] by (elim exE)
  show ?thesis
    unfolding l prod.case
    by (intro exI [of _ "Exchange_values (oauth2Config c) code (Link_opts c codeVerifier reqURIString)"]
          conjI refl Exchange_values_Link_opts)
qed

lemma strings_Split_not_Nil: "strings_Split s sep \<noteq> []"
  by (induction s) (auto split: list.splits)

text \<open>The pieces hold no separator, and joining them with the separator gives the string back.\<close>

lemma strings_Split_no_sep: "piece \<in> set (strings_Split s sep) \<Longrightarrow> sep \<notin> set piece"
  by (induction s arbitrary: piece) (auto split: if_splits list.splits)

lemma strings_Join_Cons:
  "ps \<noteq> [] \<Longrightarrow> strings_Join (p # ps) sep = p @ sep @ strings_Join ps sep"
  by (cases ps) simp_all

lemma strings_Join_Split: "strings_Join (strings_Split s sep) [sep] = s"
proof (induction s)
  case Nil
  show ?case by simp
next
  case (Cons c cs)
  show ?case
  proof (cases "c = sep")
    case True
    with Cons show ?thesis
      by (simp add: strings_Join_Cons strings_Split_not_Nil)
  next
    case False
    obtain piece pieces where sp: "strings_Split cs sep = piece # pieces"
      using strings_Split_not_Nil [of cs sep] by (cases "strings_Split cs sep") auto
    with Cons False show ?thesis
      by (cases pieces) simp_all
  qed
qed

text \<open>The split of the code is a split in the specification's reading, and there is no other.\<close>

lemma strings_Split_spells:
  "concat (map (\<lambda>p. p @ [sep]) (strings_Split s sep)) = s @ [sep]"
proof (induction s)
  case Nil
  show ?case by simp
next
  case (Cons c cs)
  obtain piece pieces where sp: "strings_Split cs sep = piece # pieces"
    using strings_Split_not_Nil [of cs sep] by (cases "strings_Split cs sep") auto
  from Cons.IH have ih: "piece @ sep # concat (map (\<lambda>p. p @ [sep]) pieces) = cs @ [sep]"
    unfolding sp by simp
  show ?case
  proof (cases "c = sep")
    case True
    then show ?thesis
      using ih by (simp add: sp)
  next
    case False
    then show ?thesis
      using ih by (simp add: sp)
  qed
qed

lemma strings_Split_split_on_spaces: "split_on_spaces S (strings_Split S CHR '' '')"
proof -
  have "CHR '' '' \<notin> set (concat (strings_Split S CHR '' ''))"
  proof
    assume "CHR '' '' \<in> set (concat (strings_Split S CHR '' ''))"
    then obtain piece where "piece \<in> set (strings_Split S CHR '' '')" "CHR '' '' \<in> set piece"
      by auto
    then show False
      using strings_Split_no_sep by blast
  qed
  moreover have "concat (map (\<lambda>p. p @ '' '') (strings_Split S CHR '' '')) = S @ '' ''"
    by (rule strings_Split_spells)
  ultimately show ?thesis
    unfolding split_on_spaces_def by (rule conjI)
qed

lemma first_piece_unique:
  "sep \<notin> set p \<Longrightarrow> sep \<notin> set q \<Longrightarrow> p @ sep # a = q @ sep # b \<Longrightarrow> p = q \<and> a = b"
proof (induction p arbitrary: q)
  case Nil
  then show ?case by (cases q) auto
next
  case (Cons x p)
  then show ?case by (cases q) auto
qed

lemma pieces_unique:
  "sep \<notin> set (concat ps) \<Longrightarrow> sep \<notin> set (concat qs)
   \<Longrightarrow> concat (map (\<lambda>p. p @ [sep]) ps) = concat (map (\<lambda>p. p @ [sep]) qs) \<Longrightarrow> ps = qs"
proof (induction ps arbitrary: qs)
  case Nil
  show ?case
  proof (cases qs)
    case Nil
    then show ?thesis by simp
  next
    case (Cons q qs')
    with Nil.prems(3) show ?thesis by simp
  qed
next
  case (Cons p ps)
  note prems = Cons.prems
  show ?case
  proof (cases qs)
    case Nil
    with prems(3) show ?thesis by simp
  next
    case qs: (Cons q qs')
    have np: "sep \<notin> set p" and nps: "sep \<notin> set (concat ps)"
      using prems(1) by simp_all
    have nq: "sep \<notin> set q" and nqs: "sep \<notin> set (concat qs')"
      using prems(2) unfolding qs by simp_all
    have eq: "p @ sep # concat (map (\<lambda>p. p @ [sep]) ps)
              = q @ sep # concat (map (\<lambda>p. p @ [sep]) qs')"
      using prems(3) unfolding qs by simp
    have pq: "p = q \<and> concat (map (\<lambda>p. p @ [sep]) ps) = concat (map (\<lambda>p. p @ [sep]) qs')"
      using np nq eq by (rule first_piece_unique)
    then have "ps = qs'"
      using nps nqs by (intro Cons.IH) simp_all
    with pq show ?thesis
      unfolding qs by simp
  qed
qed

lemma split_on_spaces_unique:
  assumes "split_on_spaces S pieces"
  shows "pieces = strings_Split S CHR '' ''"
proof (rule pieces_unique [where sep = "CHR '' ''"])
  show "CHR '' '' \<notin> set (concat pieces)"
    using assms by (simp add: split_on_spaces_def)
  show "CHR '' '' \<notin> set (concat (strings_Split S CHR '' ''))"
    using strings_Split_split_on_spaces [of S] by (simp add: split_on_spaces_def)
  show "concat (map (\<lambda>p. p @ '' '') pieces) = concat (map (\<lambda>p. p @ '' '') (strings_Split S CHR '' ''))"
    using assms strings_Split_spells [of "CHR '' ''" S] by (simp add: split_on_spaces_def)
qed

text \<open>
  Claim C6. When the exchange gives a token whose extra fields \<open>user_id\<close> and \<open>scope\<close>
  are the strings \<open>U\<close> and \<open>S\<close>, \<open>Link\<close> returns no error and a \<open>LinkResponse\<close> with
  \<open>UserID = U\<close>, with a token that has the access token, token type, refresh token and
  expiry of the response, and with the scope that is the set of the pieces of \<open>S\<close> split on
  single spaces: \<open>S\<close> has such a split, and whichever list of pieces is a split of \<open>S\<close>,
  the scope is the set of its members. The pieces \<open>activity\<close> and \<open>heartrate\<close> are the
  split of \<open>activity heartrate\<close>.
\<close>

theorem Link_success:
  assumes ex: "oauth2_Exchange env (oauth2Config c) code (Link_opts c codeVerifier reqURIString) w
                = (Inr token, w1)"
    and u: "Extra token ''user_id'' = Some (GoString U)"
    and s: "Extra token ''scope'' = Some (GoString S)"
  shows "(\<exists>pieces. split_on_spaces S pieces)
         \<and> (\<forall>pieces. split_on_spaces S pieces \<longrightarrow>
               fst (Link env c code codeVerifier reqURIString w)
                 = Returned (Some \<lparr> UserID = U, Scope = Some (set pieces),
                                    Token = Some \<lparr> AccessToken = o2_AccessToken token,
                                                   TokenType = o2_TokenType token,
                                                   RefreshToken = o2_RefreshToken token,
                                                   Expiry = o2_Expiry token \<rparr> \<rparr>, None))
         \<and> split_on_spaces ''activity heartrate'' [''activity'', ''heartrate'']"
proof (intro conjI allI impI)
  show "\<exists>pieces. split_on_spaces S pieces"
    using strings_Split_split_on_spaces by blast
next
  fix pieces assume "split_on_spaces S pieces"
  then have "pieces = strings_Split S CHR '' ''"
    by (rule split_on_spaces_unique)
  with assms show "fst (Link env c code codeVerifier reqURIString w)
                 = Returned (Some \<lparr> UserID = U, Scope = Some (set pieces),
                                    Token = Some \<lparr> AccessToken = o2_AccessToken token,
                                                   TokenType = o2_TokenType token,
                                                   RefreshToken = o2_RefreshToken token,
                                                   Expiry = o2_Expiry token \<rparr> \<rparr>, None)"
    by (simp add: Link_def Let_def newScope_def)
next
  show "split_on_spaces ''activity heartrate'' [''activity'', ''heartrate'']"
    by (simp add: split_on_spaces_def)
qed

theorem Link_success_witness:
  "fst (Link ex_env ex_client ''abc123'' ''Vxyz'' ''https://app/callback'' 0)
     = Returned (Some \<lparr> UserID = ''U1'', Scope = Some {''activity'', ''heartrate''},
                        Token = Some \<lparr> AccessToken = ''AT1'', TokenType = ''Bearer'',
                                       RefreshToken = ''RT1'', Expiry = 3600 \<rparr> \<rparr>, None)"
proof -
  have a: "oauth2_Exchange ex_env (oauth2Config ex_client) ''abc123''
             (Link_opts ex_client ''Vxyz'' ''https://app/callback'') 0 = (Inr ex_response, 1)"
    by (simp add: oauth2_Exchange_def ex_env_def Exchange_values_def Link_opts_def ex_client_def
        ex_config_def Values_Set_def)
  have u: "Extra ex_response ''user_id'' = Some (GoString ''U1'')"
    and s: "Extra ex_response ''scope'' = Some (GoString ''activity heartrate'')"
    by (simp_all add: Extra_def ex_response_def)
  from Link_success [OF a u s]
  have "split_on_spaces ''activity heartrate'' [''activity'', ''heartrate'']
        \<longrightarrow> fst (Link ex_env ex_client ''abc123'' ''Vxyz'' ''https://app/callback'' 0)
            = Returned (Some \<lparr> UserID = ''U1'', Scope = Some (set [''activity'', ''heartrate'']),
                               Token = Some \<lparr> AccessToken = o2_AccessToken ex_response,
                                              TokenType = o2_TokenType ex_response,
                                              RefreshToken = o2_RefreshToken ex_response,
                                              Expiry = o2_Expiry ex_response \<rparr> \<rparr>, None)"
    and "split_on_spaces ''activity heartrate'' [''activity'', ''heartrate'']"
    by blast+
  then show ?thesis
    by (simp add: ex_response_def)
qed

text \<open>
  Claim C9. When the exchange gives a token, \<open>Link\<close> panics exactly when the extra field
  \<open>user_id\<close> or the extra field \<open>scope\<close> is missing or is not a string; it returns no
  error value then. When both are strings it returns a \<open>LinkResponse\<close> and no error.
\<close>

theorem Link_panics:
  assumes ex: "oauth2_Exchange env (oauth2Config c) code (Link_opts c codeVerifier reqURIString) w
                = (Inr token, w1)"
  shows "(fst (Link env c code codeVerifier reqURIString w) = Aborted)
          = (\<not> ((\<exists>u. Extra token ''user_id'' = Some (GoString u))
                 \<and> (\<exists>s. Extra token ''scope'' = Some (GoString s))))
         \<and> ((\<exists>u. Extra token ''user_id'' = Some (GoString u))
                 \<and> (\<exists>s. Extra token ''scope'' = Some (GoString s))
             \<longrightarrow> (\<exists>resp. fst (Link env c code codeVerifier reqURIString w)
                           = Returned (Some resp, None)))"
  using assms
  by (auto simp add: Link_def Let_def split: prod.splits option.splits go_value.splits)

theorem Link_panics_witness:
  "fst (Link ex_env ex_client ''nouser'' ''Vxyz'' ''https://app/callback'' 0) = Aborted
   \<and> (\<exists>resp. fst (Link ex_env ex_client ''abc123'' ''Vxyz'' ''https://app/callback'' 0)
                = Returned (Some resp, None))"
proof -
  have a: "oauth2_Exchange ex_env (oauth2Config ex_client) ''nouser''
             (Link_opts ex_client ''Vxyz'' ''https://app/callback'') 0
           = (Inr (ex_response\<lparr> o2_raw := [''scope'' \<mapsto> GoString ''activity''] \<rparr>), 1)"
    by (simp add: oauth2_Exchange_def ex_env_def Exchange_values_def Link_opts_def ex_client_def
        ex_config_def Values_Set_def)
  have b: "oauth2_Exchange ex_env (oauth2Config ex_client) ''abc123''
             (Link_opts ex_client ''Vxyz'' ''https://app/callback'') 0 = (Inr ex_response, 1)"
    by (simp add: oauth2_Exchange_def ex_env_def Exchange_values_def Link_opts_def ex_client_def
        ex_config_def Values_Set_def)
  have na: "\<not> (\<exists>u. Extra (ex_response\<lparr> o2_raw := [''scope'' \<mapsto> GoString ''activity''] \<rparr>)
                     ''user_id'' = Some (GoString u))"
    by (simp add: Extra_def)
  have u: "\<exists>u. Extra ex_response ''user_id'' = Some (GoString u)"
    and s: "\<exists>s. Extra ex_response ''scope'' = Some (GoString s)"
    by (simp_all add: Extra_def ex_response_def)
  from Link_panics [OF a] na Link_panics [OF b] u s show ?thesis
    by blast
qed

end
